theory Spec2Isabelle
  imports Complex_Main
begin

section \<open>Data model (types.ts)\<close>

datatype DecisionType = SHOPPING | MESSAGE | WORK | FEELING | OTHER

datatype DecisionStatus = DRAFT | WAITING | COMPLETED | CANCELLED | SNOOZED

text \<open>
  The interface \<open>Decision\<close>. The fields \<open>id\<close>, \<open>type\<close> and \<open>text\<close> carry the prefix
  \<open>d_\<close> because their names are taken in Isabelle. Timestamps and durations are the
  integers produced by \<open>Date.now()\<close>, \<open>parseInt\<close> and the preset table; the optional
  fields \<open>reflectionText?\<close> and \<open>finalNote?\<close> are options.
\<close>

record decision =
  d_id :: string
  d_type :: DecisionType
  d_text :: string
  reflectionText :: "string option"
  startTime :: int
  durationMinutes :: int
  endTime :: int
  status :: DecisionStatus
  createdAt :: int
  finalNote :: "string option"

section \<open>Persistence (services/storage)\<close>

text \<open>
  \<open>localStorage\<close> is a map from keys to strings. \<open>JSON.stringify\<close> and \<open>JSON.parse\<close>
  belong to the runtime, not to the repository: they are a parameter of the model.
  \<open>parse\<close> returning \<open>None\<close> stands for \<open>JSON.parse\<close> returning \<open>null\<close>. The
  application writes the key only through \<open>saveDecision\<close>; a string that is not JSON,
  on which \<open>JSON.parse\<close> throws, is outside the model.
\<close>

record json =
  stringify :: "decision \<Rightarrow> string"
  parse :: "string \<Rightarrow> decision option"

type_synonym storage = "string \<Rightarrow> string option"

definition STORAGE_KEY :: string where
  "STORAGE_KEY = ''secondthought_active_decision''"

definition saveDecision :: "json \<Rightarrow> storage \<Rightarrow> decision \<Rightarrow> storage" where
  "saveDecision js ls d = ls(STORAGE_KEY \<mapsto> stringify js d)"

text \<open>
  \<open>data ? JSON.parse(data) : null\<close>: a missing key (\<open>null\<close>) and the empty string are
  both falsy.
\<close>

definition getDecision :: "json \<Rightarrow> storage \<Rightarrow> decision option" where
  "getDecision js ls =
     (case ls STORAGE_KEY of
        None \<Rightarrow> None
      | Some data \<Rightarrow> if data = [] then None else parse js data)"

definition clearDecision :: "storage \<Rightarrow> storage" where
  "clearDecision ls = ls(STORAGE_KEY := None)"

text \<open>
  \<open>crypto.randomUUID()\<close> and \<open>Date.now()\<close> are read from the environment: the two
  values are arguments.
\<close>

definition createDraftDecision :: "string \<Rightarrow> int \<Rightarrow> decision" where
  "createDraftDecision uuid now =
     \<lparr> d_id = uuid, d_type = OTHER, d_text = [], reflectionText = None,
       startTime = 0, durationMinutes = 0, endTime = 0, status = DRAFT,
       createdAt = now, finalNote = None \<rparr>"

section \<open>Application state (App.tsx)\<close>

text \<open>
  The state of the component \<open>App\<close> (\<open>activeDecision\<close>, \<open>draftDecision\<close>,
  \<open>isLoading\<close>) together with what its handlers reach outside it: the browser's
  \<open>localStorage\<close>, the router's location and the lines written by \<open>console.log\<close>.
\<close>

record app =
  activeDecision :: "decision option"
  draftDecision :: decision
  isLoading :: bool
  localStorage :: storage
  location :: string
  console :: "(DecisionStatus \<times> string option) list"

definition navigate :: "string \<Rightarrow> app \<Rightarrow> app" where
  "navigate path s = s\<lparr>location := path\<rparr>"

definition setDraft :: "(decision \<Rightarrow> decision) \<Rightarrow> app \<Rightarrow> app" where
  "setDraft f s = s\<lparr>draftDecision := f (draftDecision s)\<rparr>"

text \<open>The first render of \<open>App\<close>, before its effect has run.\<close>

definition initialApp :: "storage \<Rightarrow> string \<Rightarrow> string \<Rightarrow> int \<Rightarrow> app" where
  "initialApp ls path uuid now =
     \<lparr> activeDecision = None, draftDecision = createDraftDecision uuid now,
       isLoading = True, localStorage = ls, location = path, console = [] \<rparr>"

text \<open>The effect "Initialize from storage".\<close>

definition initialize :: "json \<Rightarrow> app \<Rightarrow> app" where
  "initialize js s =
     (let s1 = (case getDecision js (localStorage s) of
                  Some saved \<Rightarrow> s\<lparr>activeDecision := Some saved\<rparr>
                | None \<Rightarrow> s)
      in s1\<lparr>isLoading := False\<rparr>)"

definition startWaiting :: "json \<Rightarrow> decision \<Rightarrow> app \<Rightarrow> app" where
  "startWaiting js d s =
     s\<lparr>localStorage := saveDecision js (localStorage s) d, activeDecision := Some d\<rparr>"

text \<open>
  \<open>handleFinish\<close> logs its two arguments, clears the store and the active decision and
  installs a fresh draft. The source keeps no history ("In a real app with history, we
  would push to a history array here including the final note").
\<close>

definition handleFinish ::
  "DecisionStatus \<Rightarrow> string option \<Rightarrow> string \<Rightarrow> int \<Rightarrow> app \<Rightarrow> app" where
  "handleFinish st note uuid now s =
     s\<lparr>console := console s @ [(st, note)],
       localStorage := clearDecision (localStorage s),
       activeDecision := None,
       draftDecision := createDraftDecision uuid now\<rparr>"

definition handleEmergency :: "json \<Rightarrow> int \<Rightarrow> app \<Rightarrow> app" where
  "handleEmergency js now s =
     (case activeDecision s of
        None \<Rightarrow> s
      | Some d \<Rightarrow>
          (let updated = d\<lparr>endTime := now\<rparr>
           in s\<lparr>localStorage := saveDecision js (localStorage s) updated,
                activeDecision := Some updated\<rparr>))"

text \<open>Emergency overrides pressed one after the other, at the given clock readings.\<close>

fun emergencies :: "json \<Rightarrow> int list \<Rightarrow> app \<Rightarrow> app" where
  "emergencies js [] s = s"
| "emergencies js (now # rest) s = emergencies js rest (handleEmergency js now s)"

section \<open>The screens that build the draft\<close>

text \<open>
  Strings are lists of code units below 256. \<open>String.prototype.trim\<close> removes white
  space at both ends; below 256 that is TAB, LF, VT, FF, CR, SPACE and NBSP.
\<close>

definition is_space :: "char \<Rightarrow> bool" where
  "is_space c \<longleftrightarrow> c \<in> set [CHR 0x09, CHR 0x0A, CHR 0x0B, CHR 0x0C, CHR 0x0D, CHR 0x20, CHR 0xA0]"

definition trim :: "string \<Rightarrow> string" where
  "trim s = rev (dropWhile is_space (rev (dropWhile is_space s)))"

text \<open>
  \<open>DecisionInputScreen.handleNext\<close>, with the text typed so far. The source defines no
  error class and no handler throws: the guard is an early return.
\<close>

definition handleNext :: "string \<Rightarrow> app \<Rightarrow> app" where
  "handleNext txt s =
     (if trim txt = [] then s
      else navigate ''/delay'' (setDraft (\<lambda>prev. prev\<lparr>d_text := txt\<rparr>) s))"

text \<open>\<open>DelaySelectionScreen.handleSelect\<close>.\<close>

definition handleSelect :: "int \<Rightarrow> app \<Rightarrow> app" where
  "handleSelect mins s =
     navigate ''/reflection'' (setDraft (\<lambda>prev. prev\<lparr>durationMinutes := mins\<rparr>) s)"

datatype duration_unit = minutes | hours | days

definition calculateMinutes :: "int \<Rightarrow> duration_unit \<Rightarrow> int" where
  "calculateMinutes v u =
     (case u of minutes \<Rightarrow> v | hours \<Rightarrow> v * 60 | days \<Rightarrow> v * 24 * 60)"

definition MAX_MINUTES :: int where
  "MAX_MINUTES = 7 * 24 * 60"

text \<open>The effect of \<open>CustomDurationPicker\<close> that keeps \<open>error\<close> in step with \<open>totalMinutes\<close>.\<close>

definition pickerError :: "int \<Rightarrow> string option" where
  "pickerError totalMinutes =
     (if totalMinutes > MAX_MINUTES then Some ''Maksimal durasi adalah 1 minggu (7 hari).''
      else if totalMinutes < 1 then Some ''Durasi minimal 1 menit.''
      else None)"

text \<open>\<open>CustomDurationPicker.handleConfirm\<close>; \<open>onSelect\<close> is \<open>handleSelect\<close>.\<close>

definition handleConfirm :: "int \<Rightarrow> duration_unit \<Rightarrow> app \<Rightarrow> app" where
  "handleConfirm v u s =
     (let totalMinutes = calculateMinutes v u
      in if pickerError totalMinutes = None then handleSelect totalMinutes s
         else s)"

text \<open>
  \<open>ReflectionScreen.handleStart\<close>. The object literal calls \<open>Date.now()\<close> twice, once
  for \<open>startTime\<close> and once for \<open>endTime\<close>: \<open>now1\<close> and \<open>now2\<close> are the two readings,
  in that order. The request for the notification permission that precedes it does not
  touch the state modelled here.
\<close>

definition handleStart :: "json \<Rightarrow> string \<Rightarrow> int \<Rightarrow> int \<Rightarrow> app \<Rightarrow> app" where
  "handleStart js reflection now1 now2 s =
     (let draft = draftDecision s;
          finalDecision = draft\<lparr>reflectionText := Some reflection,
                                status := WAITING,
                                startTime := now1,
                                endTime := now2 + durationMinutes draft * 60 * 1000\<rparr>
      in navigate ''/waiting'' (startWaiting js finalDecision s))"

text \<open>\<open>ResultScreen.handleFinalClose\<close>; \<open>selectedAction\<close> is \<open>null\<close> until a choice is made.\<close>

definition handleFinalClose ::
  "DecisionStatus option \<Rightarrow> string \<Rightarrow> string \<Rightarrow> int \<Rightarrow> app \<Rightarrow> app" where
  "handleFinalClose selectedAction note uuid now s =
     (case selectedAction of
        Some action \<Rightarrow> handleFinish action (Some note) uuid now s
      | None \<Rightarrow> s)"

section \<open>Routes\<close>

datatype element =
    LoadingPlaceholder
  | Navigate string
  | LandingScreen
  | HowItWorksScreen
  | DecisionTypeScreen
  | DecisionInputScreen
  | DelaySelectionScreen
  | ReflectionScreen
  | WaitingScreen decision
  | ResultScreen string
  | NoMatch

text \<open>
  What \<open>App\<close> renders at the current location; \<open>now\<close> is the reading of \<open>Date.now()\<close>
  taken by the element of the route \<open>/\<close>.
\<close>

definition render :: "int \<Rightarrow> app \<Rightarrow> element" where
  "render now s =
     (if isLoading s then LoadingPlaceholder
      else if location s = ''/'' then
        (case activeDecision s of
           Some d \<Rightarrow>
             if status d = WAITING
             then (if now \<ge> endTime d then Navigate ''/result'' else Navigate ''/waiting'')
             else LandingScreen
         | None \<Rightarrow> LandingScreen)
      else if location s = ''/how-it-works'' then HowItWorksScreen
      else if location s = ''/type'' then DecisionTypeScreen
      else if location s = ''/input'' then DecisionInputScreen
      else if location s = ''/delay'' then DelaySelectionScreen
      else if location s = ''/reflection'' then ReflectionScreen
      else if location s = ''/waiting'' then
        (case activeDecision s of Some d \<Rightarrow> WaitingScreen d | None \<Rightarrow> Navigate ''/'')
      else if location s = ''/result'' then
        (case activeDecision s of Some d \<Rightarrow> ResultScreen (d_text d) | None \<Rightarrow> Navigate ''/'')
      else NoMatch)"

section \<open>The waiting screen\<close>

text \<open>
  A JavaScript number as far as the progress computation needs it: a finite value, taken
  exactly (the rounding of a quotient to a double is not modelled), or one of the values
  a division by zero produces.
\<close>

datatype number = Finite rat | PosInfinity | NegInfinity | NaN

definition js_div :: "int \<Rightarrow> int \<Rightarrow> number" where
  "js_div a b =
     (if b \<noteq> 0 then Finite (of_int a / of_int b)
      else if a > 0 then PosInfinity
      else if a < 0 then NegInfinity
      else NaN)"

fun times100 :: "number \<Rightarrow> number" where
  "times100 (Finite x) = Finite (x * 100)"
| "times100 PosInfinity = PosInfinity"
| "times100 NegInfinity = NegInfinity"
| "times100 NaN = NaN"

fun from100 :: "number \<Rightarrow> number" where
  "from100 (Finite x) = Finite (100 - x)"
| "from100 PosInfinity = NegInfinity"
| "from100 NegInfinity = PosInfinity"
| "from100 NaN = NaN"

text \<open>
  The state of a mounted \<open>WaitingScreen\<close> (\<open>timeLeft\<close>, \<open>progress\<close>, \<open>notified\<close>) and
  counters for what its interval callback does to the outside: browser notifications
  created, calls of \<open>audio.play()\<close>, calls of \<open>onComplete\<close>.
\<close>

record waiting =
  timeLeft :: "int \<times> int \<times> int"
  progress :: number
  notified :: bool
  notifications :: nat
  alarmPlays :: nat
  onCompleteCalls :: nat

definition mount :: waiting where
  "mount = \<lparr> timeLeft = (0, 0, 0), progress = Finite 0, notified = False,
             notifications = 0, alarmPlays = 0, onCompleteCalls = 0 \<rparr>"

text \<open>
  One run of the interval callback at clock reading \<open>now\<close>; \<open>granted\<close> says whether
  \<open>Notification.permission\<close> is \<open>'granted'\<close>. In the second branch \<open>diff\<close> is positive,
  so \<open>Math.floor\<close> of the quotients is \<open>div\<close> and \<open>%\<close> is \<open>mod\<close>. The callback reads
  \<open>notified\<close> as of the last render; the interval that saw the expiry is cleared before
  the flag is set, so the next run already sees the new flag.
\<close>

definition tick :: "bool \<Rightarrow> decision \<Rightarrow> int \<Rightarrow> waiting \<Rightarrow> waiting" where
  "tick granted d now w =
     (let diff = endTime d - now;
          totalDuration = endTime d - startTime d
      in if diff \<le> 0 then
           (let w1 = (if \<not> notified w
                      then w\<lparr>notified := True,
                             notifications := (if granted then Suc (notifications w)
                                               else notifications w),
                             alarmPlays := Suc (alarmPlays w)\<rparr>
                      else w)
            in w1\<lparr>onCompleteCalls := Suc (onCompleteCalls w1)\<rparr>)
         else
           w\<lparr>timeLeft := (diff div (1000 * 60 * 60),
                           (diff mod (1000 * 60 * 60)) div (1000 * 60),
                           (diff mod (1000 * 60)) div 1000),
             progress := from100 (times100 (js_div diff totalDuration))\<rparr>)"




section \<open>Sample values\<close>

text \<open>
  The scenario of the specification: a five-minute wait on "sneakers" committed at
  clock reading 1000, and a codec that knows this one record.
\<close>

definition sneakers :: decision where
  "sneakers =
     \<lparr> d_id = ''d1'', d_type = SHOPPING, d_text = ''sneakers'', reflectionText = Some [],
       startTime = 1000, durationMinutes = 5, endTime = 301000, status = WAITING,
       createdAt = 900, finalNote = None \<rparr>"

definition sneakers_json :: json where
  "sneakers_json =
     \<lparr> stringify = (\<lambda>d. if d = sneakers then ''{sneakers}'' else ''{}''),
       parse = (\<lambda>data. if data = ''{sneakers}'' then Some sneakers else None) \<rparr>"

definition sneakers_draft :: decision where
  "sneakers_draft =
     (createDraftDecision ''d1'' 900)\<lparr>d_type := SHOPPING, d_text := ''sneakers'',
                                      durationMinutes := 5\<rparr>"

definition reflecting :: app where
  "reflecting =
     \<lparr> activeDecision = None, draftDecision = sneakers_draft, isLoading = False,
       localStorage = Map.empty, location = ''/reflection'', console = [] \<rparr>"

definition waiting_app :: app where
  "waiting_app =
     \<lparr> activeDecision = Some sneakers, draftDecision = sneakers_draft, isLoading = False,
       localStorage = [STORAGE_KEY \<mapsto> ''{sneakers}''], location = ''/waiting'',
       console = [] \<rparr>"

definition idle_app :: app where
  "idle_app = initialApp Map.empty ''/'' ''d0'' 0"

text \<open>The application reloaded at a location of the wizard, with an empty store.\<close>

definition reloaded :: "string \<Rightarrow> app" where
  "reloaded path = initialize sneakers_json (initialApp Map.empty path ''d1'' 900)"


definition result_app :: app where
  "result_app = navigate ''/result'' waiting_app"

section \<open>Properties\<close>

lemma handleStart_times:
  "activeDecision (handleStart js r now1 now2 s) =
     Some ((draftDecision s)\<lparr>reflectionText := Some r, status := WAITING,
                             startTime := now1,
                             endTime := now2 + durationMinutes (draftDecision s) * 60 * 1000\<rparr>)"
  by (simp add: handleStart_def startWaiting_def navigate_def Let_def)

text \<open>
  C10: with no active decision, \<open>handleEmergency\<close> changes nothing: the whole
  application state, the store included, is returned as it was.
\<close>

theorem C10_emergency_without_active_decision:
  "activeDecision s = None \<Longrightarrow> handleEmergency js now s = s"
  by (simp add: handleEmergency_def)

theorem C10_emergency_without_active_decision_witness:
  "activeDecision idle_app = None \<and> handleEmergency sneakers_json 5000 idle_app = idle_app"
  using C10_emergency_without_active_decision [of idle_app sneakers_json 5000]
  by (simp add: idle_app_def initialApp_def)

lemma handleStart_span:
  "activeDecision (handleStart js r now1 now2 s) = Some c \<Longrightarrow>
     endTime c - startTime c = durationMinutes c * 60000 + (now2 - now1)"
  by (auto simp: handleStart_times)

text \<open>
  C1: a commit of the draft "sneakers" with a duration of 5 minutes, where the clock
  advances by one millisecond between the two calls of \<open>Date.now()\<close>, gives a WAITING
  decision whose \<open>endTime - startTime\<close> is 300001, not \<open>durationMinutes * 60000\<close>.
\<close>

theorem C1_commit_reads_clock_twice:
  "(case activeDecision (handleStart sneakers_json [] 1000 1001 reflecting) of
      Some c \<Rightarrow> status c = WAITING \<and> d_text c = ''sneakers'' \<and> durationMinutes c = 5 \<and>
                startTime c = 1000 \<and> endTime c - startTime c = 300001
    | None \<Rightarrow> False)"
  by (simp add: handleStart_times reflecting_def sneakers_draft_def createDraftDecision_def)

lemma handleEmergency_active:
  "activeDecision s = Some d \<Longrightarrow>
     handleEmergency js now s =
       s\<lparr>localStorage := saveDecision js (localStorage s) (d\<lparr>endTime := now\<rparr>),
         activeDecision := Some (d\<lparr>endTime := now\<rparr>)\<rparr>"
  by (simp add: handleEmergency_def Let_def)

lemma tick_expired:
  "endTime d \<le> now \<Longrightarrow>
     tick g d now w =
       (if notified w then w\<lparr>onCompleteCalls := Suc (onCompleteCalls w)\<rparr>
        else w\<lparr>notified := True,
               notifications := (if g then Suc (notifications w) else notifications w),
               alarmPlays := Suc (alarmPlays w),
               onCompleteCalls := Suc (onCompleteCalls w)\<rparr>)"
  by (simp add: tick_def Let_def)

lemma tick_running:
  "now < endTime d \<Longrightarrow>
     tick g d now w =
       w\<lparr>timeLeft := ((endTime d - now) div 3600000,
                       ((endTime d - now) mod 3600000) div 60000,
                       ((endTime d - now) mod 60000) div 1000),
         progress := from100 (times100 (js_div (endTime d - now) (endTime d - startTime d)))\<rparr>"
  by (simp add: tick_def Let_def)

text \<open>
  C6: an emergency override at clock reading \<open>now\<close> on an active decision \<open>d\<close> (a
  WAITING one in particular) makes the active decision \<open>d\<close> with \<open>endTime\<close> set to \<open>now\<close>
  and nothing else changed, stores that record, and leaves the rest of the application
  state alone; a tick at any later reading \<open>now'\<close> takes the expiry branch: it calls
  \<open>onComplete\<close> and leaves the one-shot flag set.
\<close>

theorem C6_emergency_override:
  assumes "activeDecision s = Some d" and "now \<le> now'"
  shows "activeDecision (handleEmergency js now s) = Some (d\<lparr>endTime := now\<rparr>) \<and>
         startTime (d\<lparr>endTime := now\<rparr>) = startTime d \<and>
         localStorage (handleEmergency js now s) STORAGE_KEY
           = Some (stringify js (d\<lparr>endTime := now\<rparr>)) \<and>
         draftDecision (handleEmergency js now s) = draftDecision s \<and>
         location (handleEmergency js now s) = location s \<and>
         onCompleteCalls (tick g (d\<lparr>endTime := now\<rparr>) now' w) = Suc (onCompleteCalls w) \<and>
         notified (tick g (d\<lparr>endTime := now\<rparr>) now' w)"
  using assms by (simp add: handleEmergency_active saveDecision_def tick_expired)

theorem C6_emergency_override_witness:
  "activeDecision waiting_app = Some sneakers \<and> (61000::int) \<le> 62000 \<and>
   activeDecision (handleEmergency sneakers_json 61000 waiting_app)
     = Some (sneakers\<lparr>endTime := 61000\<rparr>) \<and>
   startTime (sneakers\<lparr>endTime := 61000\<rparr>) = 1000 \<and>
   onCompleteCalls (tick True (sneakers\<lparr>endTime := 61000\<rparr>) 62000 mount) = 1"
proof -
  have a: "activeDecision waiting_app = Some sneakers"
    by (simp add: waiting_app_def)
  have b: "(61000::int) \<le> 62000"
    by simp
  show ?thesis
    using a b C6_emergency_override [OF a b, of sneakers_json True mount]
    by (simp add: sneakers_def mount_def)
qed

text \<open>
  C8: for a decision that the codec writes as a non-empty string and reads back as
  itself, \<open>getDecision\<close> after \<open>saveDecision\<close> returns that decision; \<open>getDecision\<close> after
  \<open>clearDecision\<close> returns nothing; and a second \<open>saveDecision\<close> replaces the first, the
  store keeping one value under its one key.
\<close>

theorem C8_store_round_trip:
  assumes "parse js (stringify js d) = Some d" and "stringify js d \<noteq> []"
  shows "getDecision js (saveDecision js ls d) = Some d \<and>
         getDecision js (clearDecision ls) = None \<and>
         getDecision js (clearDecision (saveDecision js ls d)) = None \<and>
         saveDecision js (saveDecision js ls d0) d = saveDecision js ls d \<and>
         getDecision js (saveDecision js (saveDecision js ls d0) d) = Some d"
  using assms by (simp add: getDecision_def saveDecision_def clearDecision_def)

theorem C8_store_round_trip_witness:
  "parse sneakers_json (stringify sneakers_json sneakers) = Some sneakers \<and>
   stringify sneakers_json sneakers \<noteq> [] \<and>
   getDecision sneakers_json (saveDecision sneakers_json Map.empty sneakers) = Some sneakers \<and>
   getDecision sneakers_json
     (saveDecision sneakers_json
        (saveDecision sneakers_json Map.empty (sneakers\<lparr>endTime := 5\<rparr>)) sneakers)
     = Some sneakers"
proof -
  have a: "parse sneakers_json (stringify sneakers_json sneakers) = Some sneakers"
    by (simp add: sneakers_json_def)
  have b: "stringify sneakers_json sneakers \<noteq> []"
    by (simp add: sneakers_json_def)
  show ?thesis
    using a b C8_store_round_trip [OF a b, of Map.empty "sneakers\<lparr>endTime := 5\<rparr>"]
    by simp
qed














text \<open>
  C2 as stated fails: resolving the expired "sneakers" decision as CANCELLED with a note
  leaves no decision record carrying that note or that status. The active decision is
  gone and the only record left, the new draft, has status DRAFT and no \<open>finalNote\<close>.
\<close>

theorem C2_resolve_counterexample:
  "activeDecision result_app = Some sneakers \<and> endTime sneakers \<le> 302000 \<and>
   activeDecision
     (handleFinalClose (Some CANCELLED) ''did not need them'' ''d2'' 302000 result_app) = None \<and>
   finalNote (draftDecision
     (handleFinalClose (Some CANCELLED) ''did not need them'' ''d2'' 302000 result_app))
     \<noteq> Some ''did not need them'' \<and>
   status (draftDecision
     (handleFinalClose (Some CANCELLED) ''did not need them'' ''d2'' 302000 result_app))
     \<noteq> CANCELLED"
  by (simp add: handleFinalClose_def handleFinish_def createDraftDecision_def
      result_app_def waiting_app_def navigate_def sneakers_def)

text \<open>
  C2, amended: resolving with a chosen status and a note writes the pair to the console
  log, clears the persistent store, drops the active decision and replaces the draft by
  a fresh one of status DRAFT without \<open>finalNote\<close>; the rest of the state is kept.
\<close>

theorem C2_resolve_clears_and_resets:
  "console (handleFinalClose (Some st) note uuid now s) = console s @ [(st, Some note)] \<and>
   localStorage (handleFinalClose (Some st) note uuid now s) STORAGE_KEY = None \<and>
   getDecision js (localStorage (handleFinalClose (Some st) note uuid now s)) = None \<and>
   activeDecision (handleFinalClose (Some st) note uuid now s) = None \<and>
   draftDecision (handleFinalClose (Some st) note uuid now s) = createDraftDecision uuid now \<and>
   status (draftDecision (handleFinalClose (Some st) note uuid now s)) = DRAFT \<and>
   finalNote (draftDecision (handleFinalClose (Some st) note uuid now s)) = None \<and>
   location (handleFinalClose (Some st) note uuid now s) = location s"
  by (simp add: handleFinalClose_def handleFinish_def createDraftDecision_def
      clearDecision_def getDecision_def)

text \<open>
  C3 as stated fails: the first tick of a waiting screen at \<open>now = endTime\<close> leaves the
  progress at its initial 0 percent; it is not set to 100 percent (fraction 1).
\<close>

theorem C3_progress_counterexample:
  "endTime sneakers \<le> 301000 \<and>
   progress (tick True sneakers 301000 mount) = Finite 0 \<and>
   progress (tick True sneakers 301000 mount) \<noteq> Finite 100"
  by (simp add: tick_expired sneakers_def mount_def)

text \<open>
  C3, amended: a tick at \<open>now = startTime\<close> of a decision with \<open>startTime < endTime\<close> sets
  the progress to 0 percent. A tick at \<open>now \<ge> endTime\<close> computes no quotient at all (so
  none by zero when \<open>startTime = endTime\<close>) and leaves progress and time left as they
  were. The tick is a total function: it throws on no input.
\<close>

theorem C3_progress_at_start_and_expiry:
  "(startTime d < endTime d \<longrightarrow> progress (tick g d (startTime d) w) = Finite 0) \<and>
   (endTime d \<le> now \<longrightarrow>
      progress (tick g d now w) = progress w \<and> timeLeft (tick g d now w) = timeLeft w)"
  by (simp add: tick_running tick_expired js_div_def)

theorem C3_progress_at_start_and_expiry_witness:
  "startTime sneakers < endTime sneakers \<and>
   progress (tick True sneakers (startTime sneakers) mount) = Finite 0 \<and>
   endTime (sneakers\<lparr>endTime := 1000\<rparr>) \<le> 1000 \<and>
   progress (tick True (sneakers\<lparr>endTime := 1000\<rparr>) 1000 mount) = progress mount \<and>
   timeLeft (tick True (sneakers\<lparr>endTime := 1000\<rparr>) 1000 mount) = timeLeft mount"
  using C3_progress_at_start_and_expiry [of sneakers True mount 1000000]
    C3_progress_at_start_and_expiry [of "sneakers\<lparr>endTime := 1000\<rparr>" True mount 1000]
  by (simp add: sneakers_def)

lemma zero_duration_before_start:
  "startTime d = endTime d \<Longrightarrow> now < endTime d \<Longrightarrow> progress (tick g d now w) = NegInfinity"
  by (simp add: tick_running js_div_def)

lemma emergencies_keep_start:
  "activeDecision s = Some d \<Longrightarrow> startTime d \<le> endTime d \<Longrightarrow>
     \<forall>t\<in>set ts. startTime d \<le> t \<Longrightarrow>
     \<exists>d'. activeDecision (emergencies js ts s) = Some d' \<and>
          startTime d' = startTime d \<and> startTime d' \<le> endTime d'"
proof (induction ts arbitrary: s d)
  case Nil
  then show ?case by simp
next
  case (Cons t ts)
  let ?d = "d\<lparr>endTime := t\<rparr>"
  have act: "activeDecision (handleEmergency js t s) = Some ?d"
    using Cons.prems(1) by (simp add: handleEmergency_active)
  have le: "startTime ?d \<le> endTime ?d"
    using Cons.prems(3) by simp
  have later: "\<forall>u\<in>set ts. startTime ?d \<le> u"
    using Cons.prems(3) by simp
  from Cons.IH [OF act le later] show ?case
    by simp
qed

text \<open>
  C5 as stated fails: an emergency override pressed at clock reading 301500 on the
  "sneakers" decision, whose \<open>endTime\<close> is 301000, moves \<open>endTime\<close> later, to 301500.
\<close>

theorem C5_override_after_expiry_counterexample:
  "activeDecision waiting_app = Some sneakers \<and> endTime sneakers = 301000 \<and>
   map_option endTime (activeDecision (handleEmergency sneakers_json 301500 waiting_app))
     = Some 301500"
  by (simp add: handleEmergency_def waiting_app_def sneakers_def Let_def)

text \<open>
  C5, amended: when the clock does not run backwards and the chosen duration is not
  negative, the decision made by a commit, and still after any number of emergency
  overrides, has the commit's \<open>startTime\<close> and \<open>endTime \<ge> startTime\<close>. An emergency
  override pressed at \<open>now \<le> endTime\<close> sets \<open>endTime\<close> to \<open>now\<close>, which is not later than
  the \<open>endTime\<close> it replaces.
\<close>

theorem C5_endTime_bounds:
  "(now1 \<le> now2 \<and> 0 \<le> durationMinutes (draftDecision s0) \<and> (\<forall>t\<in>set ts. now1 \<le> t) \<longrightarrow>
      (case activeDecision (emergencies js ts (handleStart js r now1 now2 s0)) of
         Some c \<Rightarrow> startTime c = now1 \<and> startTime c \<le> endTime c
       | None \<Rightarrow> False)) \<and>
   (activeDecision s = Some d \<and> now \<le> endTime d \<longrightarrow>
      (case activeDecision (handleEmergency js now s) of
         Some d' \<Rightarrow> endTime d' = now \<and> endTime d' \<le> endTime d
       | None \<Rightarrow> False))"
proof (intro conjI impI)
  assume a: "now1 \<le> now2 \<and> 0 \<le> durationMinutes (draftDecision s0) \<and> (\<forall>t\<in>set ts. now1 \<le> t)"
  let ?c = "(draftDecision s0)\<lparr>reflectionText := Some r, status := WAITING,
              startTime := now1,
              endTime := now2 + durationMinutes (draftDecision s0) * 60 * 1000\<rparr>"
  have act: "activeDecision (handleStart js r now1 now2 s0) = Some ?c"
    by (rule handleStart_times)
  have le: "startTime ?c \<le> endTime ?c"
    using a by simp
  have later: "\<forall>t\<in>set ts. startTime ?c \<le> t"
    using a by simp
  from emergencies_keep_start [OF act le later, of js]
  show "case activeDecision (emergencies js ts (handleStart js r now1 now2 s0)) of
          Some c \<Rightarrow> startTime c = now1 \<and> startTime c \<le> endTime c
        | None \<Rightarrow> False"
    by auto
next
  assume "activeDecision s = Some d \<and> now \<le> endTime d"
  then show "case activeDecision (handleEmergency js now s) of
               Some d' \<Rightarrow> endTime d' = now \<and> endTime d' \<le> endTime d
             | None \<Rightarrow> False"
    by (simp add: handleEmergency_active)
qed

theorem C5_endTime_bounds_witness:
  "((1000::int) \<le> 1000 \<and> 0 \<le> durationMinutes (draftDecision reflecting) \<and>
    (1000::int) \<le> 61000 \<and> (1000::int) \<le> 62000) \<and>
   map_option endTime
     (activeDecision (emergencies sneakers_json [61000, 62000]
        (handleStart sneakers_json [] 1000 1000 reflecting))) = Some 62000 \<and>
   (activeDecision waiting_app = Some sneakers \<and> 61000 \<le> endTime sneakers) \<and>
   map_option endTime (activeDecision (handleEmergency sneakers_json 61000 waiting_app))
     = Some 61000"
  using C5_endTime_bounds [of 1000 1000 reflecting "[61000, 62000]" sneakers_json "[]"
      waiting_app sneakers 61000]
  by (simp add: reflecting_def sneakers_draft_def createDraftDecision_def waiting_app_def
      sneakers_def handleStart_def startWaiting_def navigate_def handleEmergency_def Let_def)

lemma guards_ignore_invalid_input:
  "(trim txt = [] \<longrightarrow> handleNext txt s = s) \<and>
   (calculateMinutes v u < 1 \<or> 7 * 24 * 60 < calculateMinutes v u \<longrightarrow> handleConfirm v u s = s)"
  by (auto simp: handleNext_def handleConfirm_def pickerError_def MAX_MINUTES_def Let_def)

text \<open>
  C9: the guards against empty text and against a duration outside 1 .. 10080 sit in
  the input screen and in the duration picker; the commit, \<open>handleStart\<close>, checks
  nothing and every route renders its screen unguarded. Reloaded at \<open>/reflection\<close>,
  the application shows the reflection screen on the untouched draft (empty text,
  duration 0), and the commit makes it a persisted WAITING decision whose \<open>endTime\<close> is
  its \<open>startTime\<close>. Reloaded at \<open>/delay\<close>, a preset of 5 minutes followed by the commit
  persists a WAITING decision with empty text.
\<close>

theorem C9_commit_unvalidated:
  "render 1000 (reloaded ''/reflection'') = ReflectionScreen \<and>
   d_text (draftDecision (reloaded ''/reflection'')) = [] \<and>
   durationMinutes (draftDecision (reloaded ''/reflection'')) = 0 \<and>
   (case activeDecision (handleStart sneakers_json [] 1000 1000 (reloaded ''/reflection'')) of
      Some c \<Rightarrow> status c = WAITING \<and> d_text c = [] \<and> durationMinutes c = 0 \<and>
                startTime c = 1000 \<and> endTime c = 1000 \<and>
                localStorage (handleStart sneakers_json [] 1000 1000 (reloaded ''/reflection''))
                  STORAGE_KEY = Some (stringify sneakers_json c)
    | None \<Rightarrow> False) \<and>
   render 1000 (reloaded ''/delay'') = DelaySelectionScreen \<and>
   (case activeDecision
           (handleStart sneakers_json [] 1000 1000 (handleSelect 5 (reloaded ''/delay''))) of
      Some c \<Rightarrow> status c = WAITING \<and> d_text c = [] \<and> durationMinutes c = 5 \<and>
                localStorage
                  (handleStart sneakers_json [] 1000 1000 (handleSelect 5 (reloaded ''/delay'')))
                  STORAGE_KEY = Some (stringify sneakers_json c)
    | None \<Rightarrow> False)"
  by (simp add: reloaded_def initialize_def initialApp_def getDecision_def render_def
      createDraftDecision_def handleStart_def startWaiting_def saveDecision_def
      handleSelect_def setDraft_def navigate_def Let_def)

end
